theory Spec2Isabelle
  imports Complex_Main "HOL-Library.Word"
begin

section \<open>The Kinect driver: data model\<close>

text \<open>
  The repository's source is the class declaration \<^verbatim>\<open>kinect_camera::KinectDriver\<close>
  (\<^verbatim>\<open>kinect.h\<close>). One member function has its body there: the inline liveness check
  \<^verbatim>\<open>ok ()\<close>. Every other member function is only declared.

  C \<^verbatim>\<open>double\<close> members are \<open>real\<close>: \<^verbatim>\<open>ok ()\<close> copies them and does no arithmetic on
  them. C \<^verbatim>\<open>int\<close> members are \<open>int\<close>: the modelled code adds and compares them only.
  \<^verbatim>\<open>uint32_t\<close> is \<open>32 word\<close>. Pointers to library objects are handles (\<open>nat\<close>).
\<close>

type_synonym handle = nat

text \<open>
  The typedefs of libfreenect for a depth code and for a pixel are not in the
  repository; they are unsigned integers, and the model only stores and compares them.
\<close>

type_synonym freenect_depth = nat
type_synonym freenect_pixel = nat
type_synonym freenect_pixel_ir = nat

text \<open>A raw sample as a callback receives it: the buffer and the acquisition timestamp.\<close>

type_synonym 'a sample = "'a list \<times> 32 word"

text \<open>\<^verbatim>\<open>cv::Point3d\<close>.\<close>

record Point3d =
  px :: real
  py :: real
  pz :: real

text \<open>
  The inertial message (\<^verbatim>\<open>sensor_msgs::Imu\<close>) as far as the driver fills it: the
  acceleration and the tilt angle of the inertial state.
\<close>

record Imu =
  imu_accel_x :: real
  imu_accel_y :: real
  imu_accel_z :: real
  imu_tilt :: real

text \<open>
  A \<^verbatim>\<open>ros::Publisher\<close>, seen from the driver: how many consumers are subscribed, and
  what has been handed to it so far, oldest first.
\<close>

record 'm Publisher =
  num_subscribers :: nat
  published :: "'m list"

text \<open>
  \<^verbatim>\<open>boost::mutex\<close>, seen from one thread: the history of the operations on it. A
  sequential model has no blocking; the history is what lets a theorem say whether the
  mutex was taken at all.
\<close>

datatype mutex_op = Acquire | Release

type_synonym mutex = "mutex_op list"

text \<open>
  The data members of \<^verbatim>\<open>KinectDriver\<close>, under the names of the header without
  their trailing underscore (\<^verbatim>\<open>width_\<close> is \<open>width\<close>). Left out are the opaque ROS
  objects no modelled function touches (the camera-info managers, the reconfigure
  server and its \<^verbatim>\<open>config_\<close>, the timer, the two \<^verbatim>\<open>CameraInfo\<close> messages). An image is
  its pixel data.
\<close>

text \<open>
  Modelled from the spec: the last four fields, \<open>raw_depth\<close>, \<open>raw_rgb\<close>, \<open>raw_ir\<close> and
  \<open>ir_sent\<close>, are not members of the header. The Frame Buffer Store "holds the most
  recent raw depth, color, and infrared buffers", and each of its three store operations
  "sets a new-data flag for that channel"; the header has \<^verbatim>\<open>depth_sent_\<close> and
  \<^verbatim>\<open>rgb_sent_\<close> (new data is \<open>\<not> sent\<close>) and no flag for infrared.
\<close>

record KinectDriver =
  buffer_mutex :: mutex
  pub_rgb :: "nat list Publisher"
  pub_depth :: "nat list Publisher"
  pub_ir :: "nat list Publisher"
  pub_points :: "Point3d list Publisher"
  pub_points2 :: "Point3d list Publisher"
  pub_imu :: "Imu Publisher"
  width :: int
  height :: int
  f_ctx :: handle
  f_dev :: handle
  started :: bool
  rgb_image :: "nat list"
  depth_image :: "nat list"
  cloud :: "Point3d list"
  cloud2 :: "Point3d list"
  imu_msg :: Imu
  depth_sent :: bool
  rgb_sent :: bool
  enable_rgb_stream :: bool
  depth_roi_horiz_start :: int
  depth_roi_horiz_width :: int
  depth_roi_vert_start :: int
  depth_roi_vert_height :: int
  accel_x :: real
  accel_y :: real
  accel_z :: real
  tilt_angle :: real
  have_depth_matrix :: bool
  depth_proj_matrix :: "Point3d list option"
  can_switch_stream :: bool
  raw_depth :: "freenect_depth sample option"
  raw_rgb :: "freenect_pixel sample option"
  raw_ir :: "freenect_pixel_ir sample option"
  ir_sent :: bool

section \<open>The hardware library\<close>

text \<open>
  libfreenect is not part of the repository; \<^verbatim>\<open>ok ()\<close> calls five of its functions.
  They are parameters of the model. \<open>'w\<close> is the state of the library and of the
  hardware behind the two handles, \<open>'raw\<close> is \<^verbatim>\<open>freenect_raw_device_state\<close>.

  \<^verbatim>\<open>freenect_process_events\<close> pumps the USB events; while it runs, the library calls
  the callbacks the driver registered, on the caller's thread. The model has it return
  its status together with the frames it delivers, in order.
\<close>

datatype delivery =
  DepthFrame "freenect_depth list" "32 word"
| RgbFrame "freenect_pixel list" "32 word"
| IrFrame "freenect_pixel_ir list" "32 word"

record ('w, 'raw) freenect =
  freenect_update_device_state :: "handle \<Rightarrow> 'w \<Rightarrow> int \<times> 'w"
  freenect_get_device_state :: "handle \<Rightarrow> 'w \<Rightarrow> 'raw"
  freenect_get_mks_accel :: "'raw \<Rightarrow> real \<times> real \<times> real"
  freenect_get_tilt_degs :: "'raw \<Rightarrow> real"
  freenect_process_events :: "handle \<Rightarrow> 'w \<Rightarrow> int \<times> 'w \<times> delivery list"

section \<open>Member functions declared in the header\<close>

text \<open>Taking and releasing \<^verbatim>\<open>buffer_mutex_\<close>.\<close>

definition lock :: "KinectDriver \<Rightarrow> KinectDriver" where
  "lock s = s\<lparr>buffer_mutex := buffer_mutex s @ [Acquire]\<rparr>"

definition unlock :: "KinectDriver \<Rightarrow> KinectDriver" where
  "unlock s = s\<lparr>buffer_mutex := buffer_mutex s @ [Release]\<rparr>"

text \<open>
  Modelled from the spec: the body of \<^verbatim>\<open>publishImu ()\<close> is missing. The inertial
  message is one of the output kinds, and an output is emitted only if "at least one
  consumer is currently subscribed to that output kind"; the message carries the
  inertial state.
\<close>

definition publishImu :: "KinectDriver \<Rightarrow> KinectDriver" where
  "publishImu s =
     (if 0 < num_subscribers (pub_imu s) then
        (let m = \<lparr>imu_accel_x = accel_x s, imu_accel_y = accel_y s,
                  imu_accel_z = accel_z s, imu_tilt = tilt_angle s\<rparr>
         in s\<lparr>imu_msg := m,
              pub_imu := (pub_imu s)\<lparr>published := published (pub_imu s) @ [m]\<rparr>\<rparr>)
      else s)"

text \<open>
  Modelled from the spec: the bodies of \<^verbatim>\<open>depthCb\<close>, \<^verbatim>\<open>rgbCb\<close> and \<^verbatim>\<open>irCb\<close> are
  missing. They are the store operations of the Frame Buffer Store: each "acquires the
  lock, copies the incoming buffer, sets a new-data flag for that channel, and releases
  the lock before returning".
\<close>

definition depthCb :: "KinectDriver \<Rightarrow> freenect_depth list \<Rightarrow> 32 word \<Rightarrow> KinectDriver" where
  "depthCb s buf timestamp =
     unlock ((lock s)\<lparr>raw_depth := Some (buf, timestamp), depth_sent := False\<rparr>)"

definition rgbCb :: "KinectDriver \<Rightarrow> freenect_pixel list \<Rightarrow> 32 word \<Rightarrow> KinectDriver" where
  "rgbCb s rgb timestamp =
     unlock ((lock s)\<lparr>raw_rgb := Some (rgb, timestamp), rgb_sent := False\<rparr>)"

definition irCb :: "KinectDriver \<Rightarrow> freenect_pixel_ir list \<Rightarrow> 32 word \<Rightarrow> KinectDriver" where
  "irCb s rgb timestamp =
     unlock ((lock s)\<lparr>raw_ir := Some (rgb, timestamp), ir_sent := False\<rparr>)"

text \<open>
  Modelled from the spec: the bodies of the static trampolines \<^verbatim>\<open>depthCbInternal\<close>,
  \<^verbatim>\<open>rgbCbInternal\<close> and \<^verbatim>\<open>irCbInternal\<close> are missing. The library calls them with a
  frame ("callback signatures carrying (deviceHandle, buffer, timestamp)"), and they
  call the driver's virtual callback for that channel.
\<close>

fun dispatch :: "KinectDriver \<Rightarrow> delivery \<Rightarrow> KinectDriver" where
  "dispatch s (DepthFrame buf timestamp) = depthCb s buf timestamp"
| "dispatch s (RgbFrame buf timestamp) = rgbCb s buf timestamp"
| "dispatch s (IrFrame buf timestamp) = irCb s buf timestamp"

section \<open>The liveness check\<close>

text \<open>
  \<^verbatim>\<open>
  inline bool ok ()
  {
    freenect_raw_device_state *state;
    freenect_update_device_state (f_dev_);
    state = freenect_get_device_state (f_dev_);
    freenect_get_mks_accel (state, &accel_x_, &accel_y_, &accel_z_);
    tilt_angle_ = freenect_get_tilt_degs(state);
    publishImu();
    return (freenect_process_events (f_ctx_) >= 0);
  }
  \<close>
  The status \<^verbatim>\<open>freenect_update_device_state\<close> returns is dropped, as in the source.
\<close>

definition ok ::
  "('w, 'raw) freenect \<Rightarrow> 'w \<Rightarrow> KinectDriver \<Rightarrow> bool \<times> 'w \<times> KinectDriver" where
  "ok lib w s =
     (let (_, w1) = freenect_update_device_state lib (f_dev s) w;
          state = freenect_get_device_state lib (f_dev s) w1;
          (ax, ay, az) = freenect_get_mks_accel lib state;
          s1 = s\<lparr>accel_x := ax, accel_y := ay, accel_z := az\<rparr>;
          s2 = s1\<lparr>tilt_angle := freenect_get_tilt_degs lib state\<rparr>;
          s3 = publishImu s2;
          (rc, w2, delivered) = freenect_process_events lib (f_ctx s3) w1;
          s4 = foldl dispatch s3 delivered
      in (0 \<le> rc, w2, s4))"

text \<open>What one call of \<^verbatim>\<open>ok ()\<close> gets from the library, named for the theorems.\<close>

definition polled_world :: "('w, 'raw) freenect \<Rightarrow> 'w \<Rightarrow> KinectDriver \<Rightarrow> 'w" where
  "polled_world lib w s = snd (freenect_update_device_state lib (f_dev s) w)"

definition polled_state :: "('w, 'raw) freenect \<Rightarrow> 'w \<Rightarrow> KinectDriver \<Rightarrow> 'raw" where
  "polled_state lib w s = freenect_get_device_state lib (f_dev s) (polled_world lib w s)"

definition pump_status :: "('w, 'raw) freenect \<Rightarrow> 'w \<Rightarrow> KinectDriver \<Rightarrow> int" where
  "pump_status lib w s = fst (freenect_process_events lib (f_ctx s) (polled_world lib w s))"

definition pump_delivered :: "('w, 'raw) freenect \<Rightarrow> 'w \<Rightarrow> KinectDriver \<Rightarrow> delivery list" where
  "pump_delivered lib w s =
     snd (snd (freenect_process_events lib (f_ctx s) (polled_world lib w s)))"

text \<open>The inertial reading one call of \<^verbatim>\<open>ok ()\<close> fetches, and the driver once it is stored.\<close>

definition polled_accel ::
  "('w, 'raw) freenect \<Rightarrow> 'w \<Rightarrow> KinectDriver \<Rightarrow> real \<times> real \<times> real" where
  "polled_accel lib w s = freenect_get_mks_accel lib (polled_state lib w s)"

definition polled_tilt :: "('w, 'raw) freenect \<Rightarrow> 'w \<Rightarrow> KinectDriver \<Rightarrow> real" where
  "polled_tilt lib w s = freenect_get_tilt_degs lib (polled_state lib w s)"

definition polled_imu :: "('w, 'raw) freenect \<Rightarrow> 'w \<Rightarrow> KinectDriver \<Rightarrow> Imu" where
  "polled_imu lib w s =
     \<lparr>imu_accel_x = fst (polled_accel lib w s),
      imu_accel_y = fst (snd (polled_accel lib w s)),
      imu_accel_z = snd (snd (polled_accel lib w s)),
      imu_tilt = polled_tilt lib w s\<rparr>"

definition refreshed :: "('w, 'raw) freenect \<Rightarrow> 'w \<Rightarrow> KinectDriver \<Rightarrow> KinectDriver" where
  "refreshed lib w s =
     s\<lparr>accel_x := fst (polled_accel lib w s),
       accel_y := fst (snd (polled_accel lib w s)),
       accel_z := snd (snd (polled_accel lib w s)),
       tilt_angle := polled_tilt lib w s\<rparr>"

text \<open>The driver after one call of \<^verbatim>\<open>ok ()\<close>.\<close>

definition after_ok :: "('w, 'raw) freenect \<Rightarrow> 'w \<Rightarrow> KinectDriver \<Rightarrow> KinectDriver" where
  "after_ok lib w s = snd (snd (ok lib w s))"

text \<open>
  \<^verbatim>\<open>depthCb\<close>, \<^verbatim>\<open>rgbCb\<close> and \<^verbatim>\<open>irCb\<close> are virtual, and their bodies are not in the
  repository. What the body of \<^verbatim>\<open>ok ()\<close> decides, whatever they do, is stated with them
  as parameters: \<open>ok_cb\<close> is the same body, statement by statement, with the callbacks
  the event pump runs taken from \<open>cbs\<close>. With the store callbacks above it is \<open>ok\<close>.
\<close>

record callbacks =
  cb_depth :: "KinectDriver \<Rightarrow> freenect_depth list \<Rightarrow> 32 word \<Rightarrow> KinectDriver"
  cb_rgb :: "KinectDriver \<Rightarrow> freenect_pixel list \<Rightarrow> 32 word \<Rightarrow> KinectDriver"
  cb_ir :: "KinectDriver \<Rightarrow> freenect_pixel_ir list \<Rightarrow> 32 word \<Rightarrow> KinectDriver"

fun dispatch_with :: "callbacks \<Rightarrow> KinectDriver \<Rightarrow> delivery \<Rightarrow> KinectDriver" where
  "dispatch_with cbs s (DepthFrame buf timestamp) = cb_depth cbs s buf timestamp"
| "dispatch_with cbs s (RgbFrame buf timestamp) = cb_rgb cbs s buf timestamp"
| "dispatch_with cbs s (IrFrame buf timestamp) = cb_ir cbs s buf timestamp"

definition store_callbacks :: callbacks where
  "store_callbacks = \<lparr>cb_depth = depthCb, cb_rgb = rgbCb, cb_ir = irCb\<rparr>"

definition ok_cb ::
  "callbacks \<Rightarrow> ('w, 'raw) freenect \<Rightarrow> 'w \<Rightarrow> KinectDriver \<Rightarrow> bool \<times> 'w \<times> KinectDriver" where
  "ok_cb cbs lib w s =
     (let (_, w1) = freenect_update_device_state lib (f_dev s) w;
          state = freenect_get_device_state lib (f_dev s) w1;
          (ax, ay, az) = freenect_get_mks_accel lib state;
          s1 = s\<lparr>accel_x := ax, accel_y := ay, accel_z := az\<rparr>;
          s2 = s1\<lparr>tilt_angle := freenect_get_tilt_degs lib state\<rparr>;
          s3 = publishImu s2;
          (rc, w2, delivered) = freenect_process_events lib (f_ctx s3) w1;
          s4 = foldl (dispatch_with cbs) s3 delivered
      in (0 \<le> rc, w2, s4))"

definition after_ok_cb ::
  "callbacks \<Rightarrow> ('w, 'raw) freenect \<Rightarrow> 'w \<Rightarrow> KinectDriver \<Rightarrow> KinectDriver" where
  "after_ok_cb cbs lib w s = snd (snd (ok_cb cbs lib w s))"

text \<open>
  Views of the driver for the frame of \<^verbatim>\<open>ok ()\<close>: the inertial state, the driver with
  an inertial reading written into it, the publishers of images and point clouds, and
  the raw and derived frame buffers.
\<close>

definition inertial_state :: "KinectDriver \<Rightarrow> (real \<times> real \<times> real) \<times> real" where
  "inertial_state s = ((accel_x s, accel_y s, accel_z s), tilt_angle s)"

definition with_reading :: "KinectDriver \<Rightarrow> (real \<times> real \<times> real) \<times> real \<Rightarrow> KinectDriver" where
  "with_reading s r =
     s\<lparr>accel_x := fst (fst r), accel_y := fst (snd (fst r)), accel_z := snd (snd (fst r)),
       tilt_angle := snd r\<rparr>"

definition frame_publishers ::
  "KinectDriver \<Rightarrow> nat list Publisher \<times> nat list Publisher \<times> nat list Publisher \<times>
     Point3d list Publisher \<times> Point3d list Publisher" where
  "frame_publishers s = (pub_rgb s, pub_depth s, pub_ir s, pub_points s, pub_points2 s)"

definition frame_buffers ::
  "KinectDriver \<Rightarrow> (nat sample option \<times> nat sample option \<times> nat sample option) \<times>
     (nat list \<times> nat list \<times> Point3d list \<times> Point3d list)" where
  "frame_buffers s =
     ((raw_depth s, raw_rgb s, raw_ir s), (rgb_image s, depth_image s, cloud s, cloud2 s))"

text \<open>Which channel a delivered frame belongs to.\<close>

datatype channel = Depth | Color | Infrared

fun channel_of :: "delivery \<Rightarrow> channel" where
  "channel_of (DepthFrame buf timestamp) = Depth"
| "channel_of (RgbFrame buf timestamp) = Color"
| "channel_of (IrFrame buf timestamp) = Infrared"

text \<open>The raw buffer and the sent flag of a channel.\<close>

fun stored :: "channel \<Rightarrow> KinectDriver \<Rightarrow> nat sample option" where
  "stored Depth s = raw_depth s"
| "stored Color s = raw_rgb s"
| "stored Infrared s = raw_ir s"

fun sent :: "channel \<Rightarrow> KinectDriver \<Rightarrow> bool" where
  "sent Depth s = depth_sent s"
| "sent Color s = rgb_sent s"
| "sent Infrared s = ir_sent s"

section \<open>The Frame Buffer Store\<close>

text \<open>What one publish cycle takes out of the store: per channel, the sample or nothing.\<close>

record snapshot =
  snap_depth :: "freenect_depth sample option"
  snap_color :: "freenect_pixel sample option"
  snap_infrared :: "freenect_pixel_ir sample option"

text \<open>
  Modelled from the spec: the body of \<^verbatim>\<open>publish ()\<close> is missing. Its first step is
  \<open>snapshotForPublish\<close>, which "acquires the lock once, copies out whichever channels
  have their new-data flag set, clears those flags, and releases the lock". A channel
  has new data when its sent flag is false; clearing the new-data flag sets the sent
  flag.
\<close>

definition snapshotForPublish :: "KinectDriver \<Rightarrow> snapshot \<times> KinectDriver" where
  "snapshotForPublish s =
     (let s1 = lock s;
          snap = \<lparr>snap_depth = (if depth_sent s1 then None else raw_depth s1),
                  snap_color = (if rgb_sent s1 then None else raw_rgb s1),
                  snap_infrared = (if ir_sent s1 then None else raw_ir s1)\<rparr>;
          s2 = s1\<lparr>depth_sent := True, rgb_sent := True, ir_sent := True\<rparr>
      in (snap, unlock s2))"

fun taken :: "channel \<Rightarrow> snapshot \<Rightarrow> nat sample option" where
  "taken Depth snap = snap_depth snap"
| "taken Color snap = snap_color snap"
| "taken Infrared snap = snap_infrared snap"

text \<open>
  A history of the store: callbacks storing frames and publish cycles taking snapshots,
  in any order. \<open>run_store\<close> returns the snapshots taken, oldest first, and the driver
  at the end.
\<close>

datatype store_op = Store delivery | Snapshot

fun run_store :: "KinectDriver \<Rightarrow> store_op list \<Rightarrow> snapshot list \<times> KinectDriver" where
  "run_store s [] = ([], s)"
| "run_store s (Store d # ops) = run_store (dispatch s d) ops"
| "run_store s (Snapshot # ops) =
     (let (snap, s1) = snapshotForPublish s;
          (snaps, s2) = run_store s1 ops
      in (snap # snaps, s2))"

fun stores :: "channel \<Rightarrow> store_op \<Rightarrow> bool" where
  "stores c (Store d) = (channel_of d = c)"
| "stores c Snapshot = False"

text \<open>How many of the snapshots carry a sample of channel \<open>c\<close>.\<close>

definition deliveries :: "channel \<Rightarrow> snapshot list \<Rightarrow> nat" where
  "deliveries c snaps = length (filter (\<lambda>snap. taken c snap \<noteq> None) snaps)"

section \<open>The Depth Reconstruction Engine\<close>

text \<open>
  Modelled from the spec: the calibration curve and the invalid-reading constant are in
  no file of the repository. \<open>curve\<close> is "the sensor's fixed nonlinear calibration
  curve mapping raw depth codes to metric distance", \<open>depth_no_value\<close> "the sensor's
  defined invalid-reading constant".
\<close>

record calibration =
  depth_no_value :: freenect_depth
  curve :: "freenect_depth \<Rightarrow> real"

text \<open>
  Modelled from the spec: the body of \<^verbatim>\<open>getDistanceFromReading\<close> is missing. It
  "applies the calibration curve; returns a sentinel invalid value for codes at the
  sensor's defined invalid-reading constant". The invalid distance is \<open>None\<close>.
\<close>

definition getDistanceFromReading :: "calibration \<Rightarrow> freenect_depth \<Rightarrow> real option" where
  "getDistanceFromReading cal reading =
     (if reading = depth_no_value cal then None else Some (curve cal reading))"

text \<open>
  Modelled from the spec: the region of interest is "four integers: horizontal start,
  horizontal width, vertical start, vertical height, constraining which pixels of the
  depth image are converted to points"; the depth buffer and the projection table hold
  one entry for each pixel, read row by row. A read outside the array gives \<open>None\<close>
  ("reconstruction must clamp or reject rather than read out of bounds").
\<close>

definition in_roi :: "KinectDriver \<Rightarrow> int \<Rightarrow> int \<Rightarrow> bool" where
  "in_roi s u v =
     (depth_roi_horiz_start s \<le> u \<and> u < depth_roi_horiz_start s + depth_roi_horiz_width s \<and>
      depth_roi_vert_start s \<le> v \<and> v < depth_roi_vert_start s + depth_roi_vert_height s)"

definition pixel_at :: "KinectDriver \<Rightarrow> 'a list \<Rightarrow> int \<Rightarrow> int \<Rightarrow> 'a option" where
  "pixel_at s xs u v =
     (let i = v * width s + u
      in if 0 \<le> i \<and> i < int (length xs) then Some (xs ! nat i) else None)"

definition ray_at :: "KinectDriver \<Rightarrow> int \<Rightarrow> int \<Rightarrow> Point3d option" where
  "ray_at s u v =
     (case depth_proj_matrix s of None \<Rightarrow> None | Some table \<Rightarrow> pixel_at s table u v)"

text \<open>
  Modelled from the spec: the body of \<^verbatim>\<open>getPoint3D\<close> is missing. It "looks up distance
  via rawToMeters, multiplies by the precomputed ray for (u,v); fails (returns invalid)
  when the input distance is invalid or when (u,v) lies outside the currently
  configured region of interest", the point being "x = rayX(u,v) * depthMeters,
  y = rayY(u,v) * depthMeters, z = depthMeters". The C function returns \<^verbatim>\<open>false\<close> or
  \<^verbatim>\<open>true\<close> with the point in \<^verbatim>\<open>x\<close>, \<^verbatim>\<open>y\<close>, \<^verbatim>\<open>z\<close>; the model returns \<open>None\<close> or the point.
  A read outside the buffer or the table is rejected. The products are products of
  reals: the rounding of \<^verbatim>\<open>double\<close> and \<^verbatim>\<open>float\<close> is not modelled.
\<close>

definition getPoint3D ::
  "calibration \<Rightarrow> KinectDriver \<Rightarrow> freenect_depth list \<Rightarrow> int \<Rightarrow> int \<Rightarrow> Point3d option" where
  "getPoint3D cal s buf u v =
     (if \<not> in_roi s u v then None
      else case pixel_at s buf u v of
        None \<Rightarrow> None
      | Some reading \<Rightarrow>
          (case getDistanceFromReading cal reading of
            None \<Rightarrow> None
          | Some metres \<Rightarrow>
              (case ray_at s u v of
                None \<Rightarrow> None
              | Some ray \<Rightarrow> Some \<lparr>px = px ray * metres, py = py ray * metres, pz = metres\<rparr>)))"

text \<open>
  Modelled from the spec: point cloud generation, a part of the missing \<^verbatim>\<open>publish ()\<close>,
  "iterates the ROI only, calling reconstructPoint per pixel and skipping invalid
  results (they are omitted from the output, not written as zeros)".
\<close>

definition roi_pixels :: "KinectDriver \<Rightarrow> (int \<times> int) list" where
  "roi_pixels s =
     concat (map (\<lambda>v. map (\<lambda>u. (u, v))
         [depth_roi_horiz_start s .. depth_roi_horiz_start s + depth_roi_horiz_width s - 1])
       [depth_roi_vert_start s .. depth_roi_vert_start s + depth_roi_vert_height s - 1])"

definition point_cloud :: "calibration \<Rightarrow> KinectDriver \<Rightarrow> freenect_depth list \<Rightarrow> Point3d list" where
  "point_cloud cal s buf = List.map_filter (\<lambda>(u, v). getPoint3D cal s buf u v) (roi_pixels s)"

text \<open>The pixels of the region of interest whose depth code is the invalid reading.\<close>

definition invalid_pixels :: "calibration \<Rightarrow> KinectDriver \<Rightarrow> freenect_depth list \<Rightarrow> (int \<times> int) list" where
  "invalid_pixels cal s buf =
     filter (\<lambda>(u, v). pixel_at s buf u v = Some (depth_no_value cal)) (roi_pixels s)"

section \<open>Concrete drivers and libraries\<close>

text \<open>
  A driver at rest: a 2 by 2 image, the region of interest the whole image, nothing
  stored, nothing published, one consumer of the inertial message.
\<close>

definition no_consumer :: "'m Publisher" where
  "no_consumer = \<lparr>num_subscribers = 0, published = []\<rparr>"

definition one_consumer :: "'m Publisher" where
  "one_consumer = \<lparr>num_subscribers = 1, published = []\<rparr>"

definition still_imu :: Imu where
  "still_imu = \<lparr>imu_accel_x = 0, imu_accel_y = 0, imu_accel_z = 0, imu_tilt = 0\<rparr>"

definition driver0 :: KinectDriver where
  "driver0 =
     \<lparr>buffer_mutex = [],
      pub_rgb = no_consumer, pub_depth = no_consumer, pub_ir = no_consumer,
      pub_points = no_consumer, pub_points2 = no_consumer, pub_imu = one_consumer,
      width = 2, height = 2, f_ctx = 1, f_dev = 2, started = True,
      rgb_image = [], depth_image = [], cloud = [], cloud2 = [],
      imu_msg = still_imu,
      depth_sent = True, rgb_sent = True, enable_rgb_stream = True,
      depth_roi_horiz_start = 0, depth_roi_horiz_width = 2,
      depth_roi_vert_start = 0, depth_roi_vert_height = 2,
      accel_x = 0, accel_y = 0, accel_z = 0, tilt_angle = 0,
      have_depth_matrix = False, depth_proj_matrix = None,
      can_switch_stream = False,
      raw_depth = None, raw_rgb = None, raw_ir = None, ir_sent = True\<rparr>"

text \<open>
  A library whose device lies flat (gravity on the z axis, tilt 3 degrees) and whose
  event pump returns \<open>rc\<close> and delivers \<open>frames\<close>.
\<close>

definition flat_lib :: "int \<Rightarrow> delivery list \<Rightarrow> (unit, unit) freenect" where
  "flat_lib rc frames =
     \<lparr>freenect_update_device_state = (\<lambda>dev w. (0, w)),
      freenect_get_device_state = (\<lambda>dev w. ()),
      freenect_get_mks_accel = (\<lambda>state. (0, 0, 98 / 10)),
      freenect_get_tilt_degs = (\<lambda>state. 3),
      freenect_process_events = (\<lambda>ctx w. (rc, w, frames))\<rparr>"

definition flat_imu :: Imu where
  "flat_imu = \<lparr>imu_accel_x = 0, imu_accel_y = 0, imu_accel_z = 98 / 10, imu_tilt = 3\<rparr>"

text \<open>
  The same driver with a consumer of the depth image and of the point cloud, and a depth
  callback of a subclass that, besides storing the frame, converts it and publishes it
  at once.
\<close>

definition driver2 :: KinectDriver where
  "driver2 = driver0\<lparr>pub_depth := one_consumer, pub_points := one_consumer\<rparr>"

definition eager_depthCb :: "KinectDriver \<Rightarrow> freenect_depth list \<Rightarrow> 32 word \<Rightarrow> KinectDriver" where
  "eager_depthCb s buf timestamp =
     (let s1 = depthCb s buf timestamp
      in s1\<lparr>depth_image := buf,
            pub_depth := (pub_depth s1)\<lparr>published := published (pub_depth s1) @ [buf]\<rparr>\<rparr>)"

definition eager_callbacks :: callbacks where
  "eager_callbacks = \<lparr>cb_depth = eager_depthCb, cb_rgb = rgbCb, cb_ir = irCb\<rparr>"

text \<open>
  A calibration, a projection table with the same ray at every pixel, and a depth
  buffer whose last pixel holds the invalid reading.
\<close>

definition example_cal :: calibration where
  "example_cal = \<lparr>depth_no_value = 2047, curve = (\<lambda>reading. real reading / 1000)\<rparr>"

definition tenth_ray :: Point3d where
  "tenth_ray = \<lparr>px = 1 / 10, py = 1 / 10, pz = 1\<rparr>"

definition driver1 :: KinectDriver where
  "driver1 =
     driver0\<lparr>have_depth_matrix := True,
       depth_proj_matrix := Some [tenth_ray, tenth_ray, tenth_ray, tenth_ray]\<rparr>"

definition holed_depth :: "freenect_depth list" where
  "holed_depth = [1000, 1000, 1000, 2047]"

text \<open>A history of the store in which no depth frame arrives.\<close>

definition busy_history :: "store_op list" where
  "busy_history = [Snapshot, Store (RgbFrame [9] 5), Snapshot, Snapshot]"

section \<open>Properties of the liveness check\<close>

lemma publishImu_f_ctx: "f_ctx (publishImu s) = f_ctx s"
  by (simp add: publishImu_def Let_def)

lemma ok_status: "fst (ok lib w s) = (0 \<le> pump_status lib w s)"
  by (simp add: ok_def pump_status_def polled_world_def publishImu_f_ctx Let_def
      split: prod.splits)

lemma ok_state:
  "after_ok lib w s = foldl dispatch (publishImu (refreshed lib w s)) (pump_delivered lib w s)"
  by (simp add: after_ok_def ok_def refreshed_def pump_delivered_def polled_accel_def
      polled_tilt_def polled_state_def polled_world_def publishImu_f_ctx Let_def
      split: prod.splits)

text \<open>
  Claim C3. For every call, \<^verbatim>\<open>ok ()\<close> returns false exactly when the event pump
  \<^verbatim>\<open>freenect_process_events\<close>, called on the driver's context after the device state
  was updated, returns a negative value; otherwise it returns true.
\<close>

theorem ok_false_iff_pump_error:
  "(\<not> fst (ok lib w s)) = (pump_status lib w s < 0) \<and>
   fst (ok lib w s) = (0 \<le> pump_status lib w s)"
  using ok_status [of lib w s] by auto

theorem ok_false_iff_pump_error_witness:
  "pump_status (flat_lib (- 1) []) () driver0 = - 1 \<and>
   \<not> fst (ok (flat_lib (- 1) []) () driver0) \<and>
   pump_status (flat_lib 0 []) () driver0 = 0 \<and>
   fst (ok (flat_lib 0 []) () driver0)"
  using ok_false_iff_pump_error [of "flat_lib (- 1) []" "()" driver0]
    ok_false_iff_pump_error [of "flat_lib 0 []" "()" driver0]
  by (simp add: pump_status_def polled_world_def flat_lib_def)

subsection \<open>The body with the callbacks as parameters\<close>

lemma dispatch_store: "dispatch_with store_callbacks s d = dispatch s d"
  by (cases d) (simp_all add: store_callbacks_def)

lemma dispatch_store_fun: "dispatch_with store_callbacks = dispatch"
  by (intro ext) (rule dispatch_store)

lemma ok_is_ok_cb: "ok lib w s = ok_cb store_callbacks lib w s"
  by (simp add: ok_def ok_cb_def dispatch_store_fun)

lemma ok_cb_status: "fst (ok_cb cbs lib w s) = (0 \<le> pump_status lib w s)"
  by (simp add: ok_cb_def pump_status_def polled_world_def publishImu_f_ctx Let_def
      split: prod.splits)

lemma ok_cb_state:
  "after_ok_cb cbs lib w s =
     foldl (dispatch_with cbs) (publishImu (refreshed lib w s)) (pump_delivered lib w s)"
  by (simp add: after_ok_cb_def ok_cb_def refreshed_def pump_delivered_def polled_accel_def
      polled_tilt_def polled_state_def polled_world_def publishImu_f_ctx Let_def
      split: prod.splits)

lemma refreshed_with_reading:
  "refreshed lib w s = with_reading s (polled_accel lib w s, polled_tilt lib w s)"
  by (simp add: refreshed_def with_reading_def)

text \<open>What every delivered callback keeps, the whole delivery keeps.\<close>

lemma foldl_keeps: "\<forall>t. \<forall>d\<in>set ds. g (f t d) = g t \<Longrightarrow> g (foldl f s ds) = g s"
  by (induction ds arbitrary: s) simp_all

subsection \<open>What publishImu writes\<close>

lemma publishImu_published:
  "published (pub_imu (publishImu (refreshed lib w s))) =
     published (pub_imu s) @
       (if 0 < num_subscribers (pub_imu s) then [polled_imu lib w s] else [])"
  by (simp add: publishImu_def refreshed_def polled_imu_def Let_def)

lemma publishImu_frame_publishers: "frame_publishers (publishImu s) = frame_publishers s"
  by (simp add: frame_publishers_def publishImu_def Let_def)

lemma refreshed_frame_publishers: "frame_publishers (refreshed lib w s) = frame_publishers s"
  by (simp add: frame_publishers_def refreshed_def)

lemma publishImu_inertial: "inertial_state (publishImu s) = inertial_state s"
  by (simp add: inertial_state_def publishImu_def Let_def)

lemma publishImu_buffers:
  "frame_buffers (publishImu s) = frame_buffers s" "buffer_mutex (publishImu s) = buffer_mutex s"
  by (simp_all add: frame_buffers_def publishImu_def Let_def)

subsection \<open>What the store callbacks keep\<close>

lemma store_keeps_pub_imu: "pub_imu (dispatch_with store_callbacks t d) = pub_imu t"
  by (cases d)
    (simp_all add: store_callbacks_def depthCb_def rgbCb_def irCb_def lock_def unlock_def)

lemma store_keeps_frame_publishers:
  "frame_publishers (dispatch_with store_callbacks t d) = frame_publishers t"
  by (cases d)
    (simp_all add: frame_publishers_def store_callbacks_def depthCb_def rgbCb_def irCb_def
      lock_def unlock_def)

lemma store_keeps_inertial:
  "inertial_state (dispatch_with store_callbacks t d) = inertial_state t"
  by (cases d)
    (simp_all add: inertial_state_def store_callbacks_def depthCb_def rgbCb_def irCb_def
      lock_def unlock_def)

subsection \<open>The liveness check on the concrete library\<close>

lemmas poll_defs = pump_status_def pump_delivered_def polled_imu_def polled_accel_def
  polled_tilt_def polled_state_def polled_world_def flat_lib_def

lemma after_ok_flat:
  "after_ok (flat_lib rc frames) () s =
     foldl dispatch
       (publishImu (s\<lparr>accel_x := 0, accel_y := 0, accel_z := 98 / 10, tilt_angle := 3\<rparr>))
       frames"
  by (simp add: ok_state refreshed_def poll_defs)

lemma after_ok_cb_flat:
  "after_ok_cb cbs (flat_lib rc frames) () s =
     foldl (dispatch_with cbs)
       (publishImu (s\<lparr>accel_x := 0, accel_y := 0, accel_z := 98 / 10, tilt_angle := 3\<rparr>))
       frames"
  by (simp add: ok_cb_state refreshed_def poll_defs)

subsection \<open>A failing iteration\<close>

text \<open>
  Claim C4, as stated, fails. The claim: on an iteration in which the poll reports
  failure, \<^verbatim>\<open>ok ()\<close> returns stop and no inertial message is emitted. \<^verbatim>\<open>ok ()\<close> calls
  \<^verbatim>\<open>publishImu ()\<close> before it pumps the events, whatever the pump will return. Here the
  pump returns \<open>- 1\<close>, \<^verbatim>\<open>ok ()\<close> returns false, and the one consumer of the inertial
  message has been handed the reading of this iteration.
\<close>

theorem failing_tick_emits_imu:
  "pump_status (flat_lib (- 1) []) () driver0 < 0 \<and>
   \<not> fst (ok (flat_lib (- 1) []) () driver0) \<and>
   published (pub_imu driver0) = [] \<and>
   published (pub_imu (after_ok (flat_lib (- 1) []) () driver0)) = [flat_imu]"
proof -
  have h: "pump_status (flat_lib (- 1) []) () driver0 < 0"
    by (simp add: poll_defs)
  have e: "published (pub_imu (after_ok (flat_lib (- 1) []) () driver0)) = [flat_imu]"
    by (simp add: after_ok_flat publishImu_def driver0_def one_consumer_def flat_imu_def
        Let_def)
  have n: "published (pub_imu driver0) = []"
    by (simp add: driver0_def one_consumer_def)
  from h e n show ?thesis by (simp add: ok_status)
qed

text \<open>
  Claim C4, amended. On every iteration in which the event pump reports an error,
  \<^verbatim>\<open>ok ()\<close> returns stop. By then it has called \<^verbatim>\<open>publishImu ()\<close> on the driver with the
  reading fetched in this iteration, which hands the inertial message to the inertial
  publisher whenever that has a consumer and writes no image or point-cloud publisher.
  \<^verbatim>\<open>ok ()\<close> does not call \<^verbatim>\<open>publish ()\<close> and hands nothing else to a publisher itself:
  the driver after the call is the driver \<^verbatim>\<open>publishImu ()\<close> left, passed through the
  callbacks of the frames the pump delivered, in order, whatever those callbacks do. So
  a publisher that no delivered callback writes is after the call as \<^verbatim>\<open>publishImu ()\<close>
  left it.
\<close>

theorem failing_tick:
  "pump_status lib w s < 0 \<Longrightarrow>
   \<not> fst (ok_cb cbs lib w s) \<and>
   after_ok_cb cbs lib w s =
     foldl (dispatch_with cbs) (publishImu (refreshed lib w s)) (pump_delivered lib w s) \<and>
   published (pub_imu (publishImu (refreshed lib w s))) =
     published (pub_imu s) @
       (if 0 < num_subscribers (pub_imu s) then [polled_imu lib w s] else []) \<and>
   frame_publishers (publishImu (refreshed lib w s)) = frame_publishers s \<and>
   ((\<forall>t. \<forall>d\<in>set (pump_delivered lib w s). pub_imu (dispatch_with cbs t d) = pub_imu t) \<longrightarrow>
      published (pub_imu (after_ok_cb cbs lib w s)) =
        published (pub_imu s) @
          (if 0 < num_subscribers (pub_imu s) then [polled_imu lib w s] else [])) \<and>
   ((\<forall>t. \<forall>d\<in>set (pump_delivered lib w s).
       frame_publishers (dispatch_with cbs t d) = frame_publishers t) \<longrightarrow>
      frame_publishers (after_ok_cb cbs lib w s) = frame_publishers s)"
proof (intro conjI impI)
  assume "pump_status lib w s < 0"
  then show "\<not> fst (ok_cb cbs lib w s)" by (simp add: ok_cb_status)
next
  show "after_ok_cb cbs lib w s =
     foldl (dispatch_with cbs) (publishImu (refreshed lib w s)) (pump_delivered lib w s)"
    by (rule ok_cb_state)
next
  show "published (pub_imu (publishImu (refreshed lib w s))) =
     published (pub_imu s) @
       (if 0 < num_subscribers (pub_imu s) then [polled_imu lib w s] else [])"
    by (rule publishImu_published)
next
  show "frame_publishers (publishImu (refreshed lib w s)) = frame_publishers s"
    by (simp add: publishImu_frame_publishers refreshed_frame_publishers)
next
  assume "\<forall>t. \<forall>d\<in>set (pump_delivered lib w s). pub_imu (dispatch_with cbs t d) = pub_imu t"
  then have "pub_imu (after_ok_cb cbs lib w s) = pub_imu (publishImu (refreshed lib w s))"
    unfolding ok_cb_state by (rule foldl_keeps)
  then show "published (pub_imu (after_ok_cb cbs lib w s)) =
        published (pub_imu s) @
          (if 0 < num_subscribers (pub_imu s) then [polled_imu lib w s] else [])"
    by (simp only: publishImu_published)
next
  assume "\<forall>t. \<forall>d\<in>set (pump_delivered lib w s).
      frame_publishers (dispatch_with cbs t d) = frame_publishers t"
  then have "frame_publishers (after_ok_cb cbs lib w s) =
      frame_publishers (publishImu (refreshed lib w s))"
    unfolding ok_cb_state by (rule foldl_keeps)
  then show "frame_publishers (after_ok_cb cbs lib w s) = frame_publishers s"
    by (simp add: publishImu_frame_publishers refreshed_frame_publishers)
qed

text \<open>
  The failing iteration with a depth frame delivered, a consumer of the depth image and
  one of the point cloud, and the store callbacks: the frame is stored, the inertial
  message is out, the image and point-cloud publishers are as before.
\<close>

theorem failing_tick_witness:
  "pump_status (flat_lib (- 1) [DepthFrame [7, 7, 7, 7] 1]) () driver2 < 0 \<and>
   num_subscribers (pub_depth driver2) = 1 \<and> num_subscribers (pub_points driver2) = 1 \<and>
   \<not> fst (ok (flat_lib (- 1) [DepthFrame [7, 7, 7, 7] 1]) () driver2) \<and>
   raw_depth (after_ok (flat_lib (- 1) [DepthFrame [7, 7, 7, 7] 1]) () driver2) =
     Some ([7, 7, 7, 7], 1) \<and>
   published (pub_imu (after_ok (flat_lib (- 1) [DepthFrame [7, 7, 7, 7] 1]) () driver2)) =
     [flat_imu] \<and>
   frame_publishers (after_ok (flat_lib (- 1) [DepthFrame [7, 7, 7, 7] 1]) () driver2) =
     frame_publishers driver2"
proof -
  let ?lib = "flat_lib (- 1) [DepthFrame [7, 7, 7, 7] 1]"
  have h: "pump_status ?lib () driver2 < 0"
    by (simp add: poll_defs)
  have k: "\<forall>t. \<forall>d\<in>set (pump_delivered ?lib () driver2).
      pub_imu (dispatch_with store_callbacks t d) = pub_imu t"
    by (simp add: store_keeps_pub_imu)
  have f: "\<forall>t. \<forall>d\<in>set (pump_delivered ?lib () driver2).
      frame_publishers (dispatch_with store_callbacks t d) = frame_publishers t"
    by (simp add: store_keeps_frame_publishers)
  have e: "after_ok_cb store_callbacks ?lib () driver2 = after_ok ?lib () driver2"
    by (simp add: after_ok_def after_ok_cb_def ok_is_ok_cb)
  have r: "raw_depth (after_ok_cb store_callbacks ?lib () driver2) = Some ([7, 7, 7, 7], 1)"
    by (simp add: after_ok_cb_flat store_callbacks_def depthCb_def lock_def unlock_def)
  have n: "num_subscribers (pub_depth driver2) = 1 \<and> num_subscribers (pub_points driver2) = 1"
    by (simp add: driver2_def one_consumer_def)
  have i: "published (pub_imu driver2) @
      (if 0 < num_subscribers (pub_imu driver2) then [polled_imu ?lib () driver2] else []) =
      [flat_imu]"
    by (simp add: poll_defs driver2_def driver0_def one_consumer_def flat_imu_def)
  note t = failing_tick [OF h, of store_callbacks]
  from t have 1: "\<not> fst (ok ?lib () driver2)"
    by (simp add: ok_is_ok_cb)
  from t k have 2: "published (pub_imu (after_ok ?lib () driver2)) = [flat_imu]"
    unfolding e i by blast
  from t f have 3: "frame_publishers (after_ok ?lib () driver2) = frame_publishers driver2"
    unfolding e by blast
  from h n 1 2 3 r [unfolded e] show ?thesis by blast
qed

text \<open>
  The condition on the callbacks is needed. With the depth callback that publishes at
  once, the same failing iteration hands the frame to the depth-image publisher.
\<close>

lemma publishing_callback_on_failure:
  "pump_status (flat_lib (- 1) [DepthFrame [7, 7, 7, 7] 1]) () driver2 < 0 \<and>
   \<not> fst (ok_cb eager_callbacks (flat_lib (- 1) [DepthFrame [7, 7, 7, 7] 1]) () driver2) \<and>
   published (pub_depth
     (after_ok_cb eager_callbacks (flat_lib (- 1) [DepthFrame [7, 7, 7, 7] 1]) () driver2)) =
     [[7, 7, 7, 7]]"
proof -
  let ?lib = "flat_lib (- 1) [DepthFrame [7, 7, 7, 7] 1]"
  have h: "pump_status ?lib () driver2 < 0"
    by (simp add: poll_defs)
  have p: "published (pub_depth (after_ok_cb eager_callbacks ?lib () driver2)) = [[7, 7, 7, 7]]"
    by (simp add: after_ok_cb_flat eager_callbacks_def eager_depthCb_def depthCb_def lock_def
        unlock_def publishImu_def driver2_def driver0_def one_consumer_def Let_def)
  from h p show ?thesis by (simp add: ok_cb_status)
qed

subsection \<open>The frame of the liveness check\<close>

text \<open>
  Claim C9, as stated, fails. The claim: a call of \<^verbatim>\<open>ok ()\<close> leaves every raw buffer
  unchanged and never takes \<^verbatim>\<open>buffer_mutex_\<close>. The event pump \<^verbatim>\<open>ok ()\<close> calls delivers
  the pending frames to the driver's callbacks during the call. Here one depth frame is
  pending: after the call the raw depth buffer holds it, the depth channel has new
  data, and the mutex was taken and released.
\<close>

theorem ok_stores_delivered_frame:
  "raw_depth driver0 = None \<and>
   raw_depth (after_ok (flat_lib 0 [DepthFrame [7, 7, 7, 7] 1]) () driver0) =
     Some ([7, 7, 7, 7], 1) \<and>
   depth_sent driver0 \<and>
   \<not> depth_sent (after_ok (flat_lib 0 [DepthFrame [7, 7, 7, 7] 1]) () driver0) \<and>
   buffer_mutex driver0 = [] \<and>
   buffer_mutex (after_ok (flat_lib 0 [DepthFrame [7, 7, 7, 7] 1]) () driver0) =
     [Acquire, Release]"
  by (simp add: after_ok_flat publishImu_def depthCb_def lock_def unlock_def driver0_def
      one_consumer_def Let_def)

text \<open>
  Claim C9, amended. The statements of \<^verbatim>\<open>ok ()\<close> itself write only \<^verbatim>\<open>accel_x_\<close>,
  \<^verbatim>\<open>accel_y_\<close>, \<^verbatim>\<open>accel_z_\<close> and \<^verbatim>\<open>tilt_angle_\<close>, with the reading of the device state
  fetched in that call; then it calls \<^verbatim>\<open>publishImu ()\<close> and the event pump, which runs
  the driver's callbacks on the frames it delivers. The driver after the call is the
  driver with that reading, passed through \<^verbatim>\<open>publishImu ()\<close> and then through the
  callback of each delivered frame, in the order of delivery, whatever the callbacks do.
  So the four fields hold the fetched reading after the call unless a delivered callback
  writes them; whatever of the driver neither the four assignments nor \<^verbatim>\<open>publishImu ()\<close>
  nor a delivered callback writes is unchanged; and when the pump delivers no frame,
  all raw and derived frame buffers are unchanged and \<^verbatim>\<open>buffer_mutex_\<close> is not taken.
\<close>

theorem ok_frame:
  "after_ok_cb cbs lib w s =
     foldl (dispatch_with cbs)
       (publishImu (with_reading s (polled_accel lib w s, polled_tilt lib w s)))
       (pump_delivered lib w s) \<and>
   ((\<forall>t. \<forall>d\<in>set (pump_delivered lib w s).
       inertial_state (dispatch_with cbs t d) = inertial_state t) \<longrightarrow>
      inertial_state (after_ok_cb cbs lib w s) = (polled_accel lib w s, polled_tilt lib w s)) \<and>
   ((\<forall>t r. g (with_reading t r) = g t) \<and> (\<forall>t. g (publishImu t) = g t) \<and>
    (\<forall>t. \<forall>d\<in>set (pump_delivered lib w s). g (dispatch_with cbs t d) = g t) \<longrightarrow>
      g (after_ok_cb cbs lib w s) = g s) \<and>
   (pump_delivered lib w s = [] \<longrightarrow>
      frame_buffers (after_ok_cb cbs lib w s) = frame_buffers s \<and>
      buffer_mutex (after_ok_cb cbs lib w s) = buffer_mutex s)"
proof (intro conjI impI)
  show "after_ok_cb cbs lib w s =
     foldl (dispatch_with cbs)
       (publishImu (with_reading s (polled_accel lib w s, polled_tilt lib w s)))
       (pump_delivered lib w s)"
    by (simp only: ok_cb_state refreshed_with_reading)
next
  assume "\<forall>t. \<forall>d\<in>set (pump_delivered lib w s).
      inertial_state (dispatch_with cbs t d) = inertial_state t"
  then have "inertial_state (after_ok_cb cbs lib w s) =
      inertial_state (publishImu (refreshed lib w s))"
    unfolding ok_cb_state by (rule foldl_keeps)
  then show "inertial_state (after_ok_cb cbs lib w s) =
      (polled_accel lib w s, polled_tilt lib w s)"
    by (simp add: publishImu_inertial) (simp add: inertial_state_def refreshed_def)
next
  assume a: "(\<forall>t r. g (with_reading t r) = g t) \<and> (\<forall>t. g (publishImu t) = g t) \<and>
    (\<forall>t. \<forall>d\<in>set (pump_delivered lib w s). g (dispatch_with cbs t d) = g t)"
  then have "g (after_ok_cb cbs lib w s) = g (publishImu (refreshed lib w s))"
    unfolding ok_cb_state by (intro foldl_keeps) blast
  moreover from a have "g (with_reading s (polled_accel lib w s, polled_tilt lib w s)) = g s"
    by blast
  moreover from a have "g (publishImu (refreshed lib w s)) = g (refreshed lib w s)"
    by blast
  ultimately show "g (after_ok_cb cbs lib w s) = g s"
    by (simp only: refreshed_with_reading)
next
  assume "pump_delivered lib w s = []"
  then show "frame_buffers (after_ok_cb cbs lib w s) = frame_buffers s"
    by (simp add: ok_cb_state publishImu_buffers) (simp add: frame_buffers_def refreshed_def)
next
  assume "pump_delivered lib w s = []"
  then show "buffer_mutex (after_ok_cb cbs lib w s) = buffer_mutex s"
    by (simp add: ok_cb_state publishImu_buffers) (simp add: refreshed_def)
qed

text \<open>
  With the store callbacks and a colour frame delivered: the frame is stored, the
  inertial state is the fetched reading, the raw depth buffer is untouched. With nothing
  delivered: no buffer changes and the mutex is not taken.
\<close>

theorem ok_frame_witness:
  "pump_delivered (flat_lib 0 [RgbFrame [9] 5]) () driver0 = [RgbFrame [9] 5] \<and>
   raw_rgb (after_ok (flat_lib 0 [RgbFrame [9] 5]) () driver0) = Some ([9], 5) \<and>
   inertial_state (after_ok (flat_lib 0 [RgbFrame [9] 5]) () driver0) = ((0, 0, 98 / 10), 3) \<and>
   raw_depth (after_ok (flat_lib 0 [RgbFrame [9] 5]) () driver0) = raw_depth driver0 \<and>
   pump_delivered (flat_lib 0 []) () driver0 = [] \<and>
   frame_buffers (after_ok (flat_lib 0 []) () driver0) = frame_buffers driver0 \<and>
   buffer_mutex (after_ok (flat_lib 0 []) () driver0) = buffer_mutex driver0"
proof -
  let ?lib = "flat_lib 0 [RgbFrame [9] 5]"
  let ?idle = "flat_lib 0 []"
  have e: "\<And>lib. after_ok_cb store_callbacks lib () driver0 = after_ok lib () driver0"
    by (simp add: after_ok_def after_ok_cb_def ok_is_ok_cb)
  have d: "pump_delivered ?lib () driver0 = [RgbFrame [9] 5]"
    by (simp add: poll_defs)
  have n: "pump_delivered ?idle () driver0 = []"
    by (simp add: poll_defs)
  have p: "(polled_accel ?lib () driver0, polled_tilt ?lib () driver0) = ((0, 0, 98 / 10), 3)"
    by (simp add: poll_defs)
  have i: "\<forall>t. \<forall>d\<in>set (pump_delivered ?lib () driver0).
      inertial_state (dispatch_with store_callbacks t d) = inertial_state t"
    by (simp add: store_keeps_inertial)
  have g: "(\<forall>t r. raw_depth (with_reading t r) = raw_depth t) \<and>
      (\<forall>t. raw_depth (publishImu t) = raw_depth t) \<and>
      (\<forall>t. \<forall>d\<in>set (pump_delivered ?lib () driver0).
         raw_depth (dispatch_with store_callbacks t d) = raw_depth t)"
    by (simp add: d with_reading_def publishImu_def store_callbacks_def rgbCb_def lock_def
        unlock_def Let_def)
  have r: "raw_rgb (after_ok_cb store_callbacks ?lib () driver0) = Some ([9], 5)"
    by (simp add: after_ok_cb_flat store_callbacks_def rgbCb_def lock_def unlock_def)
  note t = ok_frame [of store_callbacks ?lib "()" driver0 raw_depth]
  note u = ok_frame [of store_callbacks ?idle "()" driver0 raw_depth]
  from t i have 1: "inertial_state (after_ok ?lib () driver0) = ((0, 0, 98 / 10), 3)"
    unfolding e p by blast
  from t g have 2: "raw_depth (after_ok ?lib () driver0) = raw_depth driver0"
    unfolding e by blast
  from u n have 3: "frame_buffers (after_ok ?idle () driver0) = frame_buffers driver0 \<and>
      buffer_mutex (after_ok ?idle () driver0) = buffer_mutex driver0"
    unfolding e by blast
  from d n 1 2 3 r [unfolded e] show ?thesis by blast
qed

section \<open>Properties of the Frame Buffer Store\<close>

lemma sent_dispatch: "sent c (dispatch s d) = (channel_of d \<noteq> c \<and> sent c s)"
  by (cases d; cases c) (simp_all add: depthCb_def rgbCb_def irCb_def lock_def unlock_def)

lemma sent_snapshot: "sent c (snd (snapshotForPublish s))"
  by (cases c) (simp_all add: snapshotForPublish_def lock_def unlock_def Let_def)

lemma taken_snapshot:
  "taken c (fst (snapshotForPublish s)) = (if sent c s then None else stored c s)"
  by (cases c) (simp_all add: snapshotForPublish_def lock_def unlock_def Let_def)

lemma run_store_Snapshot:
  "run_store s (Snapshot # ops) =
     (fst (snapshotForPublish s) # fst (run_store (snd (snapshotForPublish s)) ops),
      snd (run_store (snd (snapshotForPublish s)) ops))"
  by (simp split: prod.splits)

lemma deliveries_Cons:
  "deliveries c (snap # snaps) = (if taken c snap = None then 0 else 1) + deliveries c snaps"
  by (simp add: deliveries_def)

text \<open>
  Once a channel is drained it stays drained, and no snapshot carries it, until a frame
  of that channel is stored.
\<close>

lemma drained_stays:
  "sent c s \<Longrightarrow> \<forall>op\<in>set ops. \<not> stores c op \<Longrightarrow>
   sent c (snd (run_store s ops)) \<and> deliveries c (fst (run_store s ops)) = 0"
proof (induction ops arbitrary: s)
  case Nil
  then show ?case by (simp add: deliveries_def)
next
  case (Cons op ops)
  show ?case
  proof (cases op)
    case (Store d)
    with Cons.prems have "sent c (dispatch s d)" by (simp add: sent_dispatch)
    with Cons.IH Cons.prems Store show ?thesis by simp
  next
    case Snapshot
    have "sent c (snd (snapshotForPublish s))" by (rule sent_snapshot)
    with Cons.IH Cons.prems
    have "sent c (snd (run_store (snd (snapshotForPublish s)) ops)) \<and>
          deliveries c (fst (run_store (snd (snapshotForPublish s)) ops)) = 0"
      by simp
    with Cons.prems Snapshot show ?thesis
      by (simp add: run_store_Snapshot deliveries_Cons taken_snapshot del: run_store.simps)
  qed
qed

text \<open>A stored frame pays for at most one snapshot that carries its channel.\<close>

lemma deliveries_bound:
  "deliveries c (fst (run_store s ops)) \<le>
     length (filter (stores c) ops) + (if sent c s then 0 else 1)"
proof (induction ops arbitrary: s)
  case Nil
  then show ?case by (simp add: deliveries_def)
next
  case (Cons op ops)
  show ?case
  proof (cases op)
    case (Store d)
    show ?thesis
    proof (cases "channel_of d = c")
      case True
      with Cons.IH [of "dispatch s d"] Store show ?thesis
        by (simp add: sent_dispatch)
    next
      case False
      with Cons.IH [of "dispatch s d"] Store show ?thesis
        by (simp add: sent_dispatch)
    qed
  next
    case Snapshot
    from Cons.IH [of "snd (snapshotForPublish s)"]
    have "deliveries c (fst (run_store (snd (snapshotForPublish s)) ops)) \<le>
          length (filter (stores c) ops)"
      by (simp add: sent_snapshot)
    with Snapshot show ?thesis
      by (simp add: run_store_Snapshot deliveries_Cons taken_snapshot del: run_store.simps)
  qed
qed

text \<open>
  Claim C6. For every channel and every history of store callbacks and publish cycles:
  the number of snapshots that carry the channel is at most the number of frames stored
  for it (one more if it had new data at the start); and after a snapshot, as long as no
  frame of the channel is stored, no later snapshot carries the channel, whatever else
  is stored or taken in between.
\<close>

theorem snapshot_at_most_once:
  "deliveries c (fst (run_store s ops)) \<le>
     length (filter (stores c) ops) + (if sent c s then 0 else 1) \<and>
   ((\<forall>op\<in>set ops. \<not> stores c op) \<longrightarrow>
      deliveries c (fst (run_store (snd (snapshotForPublish s)) ops)) = 0)"
  using deliveries_bound [of c s ops] drained_stays [of c "snd (snapshotForPublish s)" ops]
  by (simp add: sent_snapshot)

theorem snapshot_at_most_once_witness:
  "\<not> stores Depth Snapshot \<and> \<not> stores Depth (Store (RgbFrame [9] 5)) \<and>
   taken Depth (fst (snapshotForPublish (dispatch driver0 (DepthFrame [7, 7, 7, 7] 1)))) =
     Some ([7, 7, 7, 7], 1) \<and>
   deliveries Depth (fst (run_store
     (snd (snapshotForPublish (dispatch driver0 (DepthFrame [7, 7, 7, 7] 1))))
     busy_history)) = 0 \<and>
   deliveries Depth (fst (run_store driver0
     (Store (DepthFrame [7, 7, 7, 7] 1) # Snapshot # busy_history))) \<le> 1"
proof -
  have h: "\<forall>op\<in>set busy_history. \<not> stores Depth op"
    by (simp add: busy_history_def)
  have t: "taken Depth (fst (snapshotForPublish (dispatch driver0 (DepthFrame [7, 7, 7, 7] 1))))
      = Some ([7, 7, 7, 7], 1)"
    by (simp add: taken_snapshot depthCb_def lock_def unlock_def)
  from snapshot_at_most_once
    [of Depth "dispatch driver0 (DepthFrame [7, 7, 7, 7] 1)" busy_history] h
  have a: "deliveries Depth (fst (run_store
     (snd (snapshotForPublish (dispatch driver0 (DepthFrame [7, 7, 7, 7] 1))))
     busy_history)) = 0"
    by simp
  from snapshot_at_most_once
    [of Depth driver0 "Store (DepthFrame [7, 7, 7, 7] 1) # Snapshot # busy_history"]
  have b: "deliveries Depth (fst (run_store driver0
     (Store (DepthFrame [7, 7, 7, 7] 1) # Snapshot # busy_history))) \<le> 1"
    by (simp add: busy_history_def driver0_def)
  from a b t show ?thesis by simp
qed

section \<open>Properties of the point cloud\<close>

lemma length_map_filter:
  "length (List.map_filter f xs) = length (filter (\<lambda>x. f x \<noteq> None) xs)"
  by (induction xs) (simp_all add: List.map_filter_simps split: option.splits)

lemma length_rows: "length (concat (map (\<lambda>v. map (f v) us) vs)) = length vs * length us"
  by (induction vs) simp_all

lemma length_roi_pixels:
  "length (roi_pixels s) = nat (depth_roi_vert_height s) * nat (depth_roi_horiz_width s)"
  by (simp add: roi_pixels_def length_rows)

lemma set_roi_pixels: "set (roi_pixels s) = {(u, v). in_roi s u v}"
  by (auto simp: roi_pixels_def in_roi_def)

lemma upto_0_1: "[0..1::int] = [0, 1]"
  by (simp add: upto_rec1)

lemmas fixture_defs = driver1_def driver0_def holed_depth_def example_cal_def

text \<open>
  Claim C2. For every depth buffer and pixel: \<open>getPoint3D\<close> returns invalid when the
  pixel lies outside the region of interest, and when the depth code at the pixel is the
  invalid reading. The point cloud has one point for each pixel of the region of
  interest with a valid result and none for the others; the region of interest has
  height times width pixels, and when at least one of them holds the invalid reading
  the cloud has strictly fewer points than that.
\<close>

theorem invalid_points_omitted:
  "(\<not> in_roi s u v \<longrightarrow> getPoint3D cal s buf u v = None) \<and>
   (pixel_at s buf u' v' = Some (depth_no_value cal) \<longrightarrow>
      getPoint3D cal s buf u' v' = None) \<and>
   length (point_cloud cal s buf) =
     length (filter (\<lambda>(u, v). getPoint3D cal s buf u v \<noteq> None) (roi_pixels s)) \<and>
   length (roi_pixels s) = nat (depth_roi_vert_height s) * nat (depth_roi_horiz_width s) \<and>
   (invalid_pixels cal s buf \<noteq> [] \<longrightarrow>
      length (point_cloud cal s buf) <
        nat (depth_roi_vert_height s) * nat (depth_roi_horiz_width s))"
proof (intro conjI impI)
  assume "\<not> in_roi s u v"
  then show "getPoint3D cal s buf u v = None" by (simp add: getPoint3D_def)
next
  assume "pixel_at s buf u' v' = Some (depth_no_value cal)"
  then show "getPoint3D cal s buf u' v' = None"
    by (simp add: getPoint3D_def getDistanceFromReading_def)
next
  show "length (point_cloud cal s buf) =
     length (filter (\<lambda>(u, v). getPoint3D cal s buf u v \<noteq> None) (roi_pixels s))"
    by (simp add: point_cloud_def length_map_filter case_prod_unfold)
next
  show "length (roi_pixels s) = nat (depth_roi_vert_height s) * nat (depth_roi_horiz_width s)"
    by (rule length_roi_pixels)
next
  assume "invalid_pixels cal s buf \<noteq> []"
  then obtain p where p: "p \<in> set (roi_pixels s)"
    and bad: "pixel_at s buf (fst p) (snd p) = Some (depth_no_value cal)"
    by (auto simp: invalid_pixels_def filter_empty_conv)
  from bad have "getPoint3D cal s buf (fst p) (snd p) = None"
    by (simp add: getPoint3D_def getDistanceFromReading_def)
  then have "\<not> (case p of (u, v) \<Rightarrow> getPoint3D cal s buf u v \<noteq> None)"
    by (simp add: case_prod_unfold)
  with p have "length (filter (\<lambda>(u, v). getPoint3D cal s buf u v \<noteq> None) (roi_pixels s))
      < length (roi_pixels s)"
    by (rule length_filter_less)
  then show "length (point_cloud cal s buf)
      < nat (depth_roi_vert_height s) * nat (depth_roi_horiz_width s)"
    by (simp add: point_cloud_def length_map_filter case_prod_unfold length_roi_pixels)
qed

theorem invalid_points_omitted_witness:
  "\<not> in_roi driver1 2 0 \<and> getPoint3D example_cal driver1 holed_depth 2 0 = None \<and>
   pixel_at driver1 holed_depth 1 1 = Some (depth_no_value example_cal) \<and>
   getPoint3D example_cal driver1 holed_depth 1 1 = None \<and>
   invalid_pixels example_cal driver1 holed_depth = [(1, 1)] \<and>
   length (point_cloud example_cal driver1 holed_depth) < 4"
proof -
  have out: "\<not> in_roi driver1 2 0"
    by (simp add: in_roi_def fixture_defs)
  have bad: "pixel_at driver1 holed_depth 1 1 = Some (depth_no_value example_cal)"
    by (simp add: pixel_at_def fixture_defs)
  have inv: "invalid_pixels example_cal driver1 holed_depth = [(1, 1)]"
    by (simp add: invalid_pixels_def roi_pixels_def pixel_at_def fixture_defs upto_0_1)
  have dims: "nat (depth_roi_vert_height driver1) * nat (depth_roi_horiz_width driver1) = 4"
    by (simp add: fixture_defs)
  from invalid_points_omitted [of driver1 2 0 example_cal holed_depth 1 1] out bad inv dims
  show ?thesis by simp
qed

end
